theory Spec2Isabelle
  imports Main "HOL-Library.Sublist" "HOL-Library.Char_ord" "HOL-Library.List_Lexorder"
begin

section \<open>Python strings\<close>

text \<open>
  File names are Python \<open>str\<close> values.  They are modelled as HOL strings whose
  characters are the code points below 256 (Latin-1); \<open>str.lower\<close> and
  \<open>str.isdigit\<close> are given for exactly that range.
\<close>

type_synonym name = string
type_synonym path = "name list"

definition lower_char :: "char \<Rightarrow> char" where
  "lower_char c = (let n = (of_char c :: nat) in
     if (65 \<le> n \<and> n \<le> 90) \<or> (192 \<le> n \<and> n \<le> 222 \<and> n \<noteq> 215)
     then char_of (n + 32) else c)"

definition py_lower :: "string \<Rightarrow> string" where
  "py_lower s = map lower_char s"

text \<open>\<open>str.isdigit\<close>: the decimal digits and the superscripts 1, 2, 3 of Latin-1.\<close>

definition py_isdigit :: "char \<Rightarrow> bool" where
  "py_isdigit c = (let n = (of_char c :: nat) in
     (48 \<le> n \<and> n \<le> 57) \<or> n = 178 \<or> n = 179 \<or> n = 185)"

definition ascii_digit :: "char \<Rightarrow> bool" where
  "ascii_digit c = (let n = (of_char c :: nat) in 48 \<le> n \<and> n \<le> 57)"

definition startswith :: "string \<Rightarrow> string \<Rightarrow> bool" where
  "startswith s p = prefix p s"

definition endswith :: "string \<Rightarrow> string \<Rightarrow> bool" where
  "endswith s p = suffix p s"

text \<open>\<open>sep in s\<close> for strings: \<open>sep\<close> occurs in \<open>s\<close> as a contiguous piece.\<close>

fun py_in :: "string \<Rightarrow> string \<Rightarrow> bool" where
  "py_in sep [] = (sep = [])"
| "py_in sep (c # cs) = (prefix sep (c # cs) \<or> py_in sep cs)"

text \<open>
  \<open>s.split(sep)\<close> for a non-empty separator: the occurrences are found from the left
  and do not overlap.  (Python raises on an empty separator; the program only splits at
  the constants \<open>log-run\<close> and \<open>-\<close>.)
\<close>

function py_split :: "string \<Rightarrow> string \<Rightarrow> string list" where
  "py_split sep s =
     (if sep \<noteq> [] \<and> prefix sep s then [] # py_split sep (drop (length sep) s)
      else (case s of
              [] \<Rightarrow> [[]]
            | c # cs \<Rightarrow> (case py_split sep cs of
                          [] \<Rightarrow> [[c]]
                        | w # ws \<Rightarrow> (c # w) # ws)))"
  by pat_completeness auto
termination
  by (relation "measure (\<lambda>(sep, s). length s)") (auto simp: prefix_def)

declare py_split.simps [simp del]

datatype parse_error = IndexError | ValueError

definition py_nth :: "'a list \<Rightarrow> nat \<Rightarrow> parse_error + 'a" where
  "py_nth xs i = (if i < length xs then Inr (xs ! i) else Inl IndexError)"

definition digit_val :: "char \<Rightarrow> nat" where
  "digit_val c = of_char c - 48"

definition dec_value :: "string \<Rightarrow> nat" where
  "dec_value s = foldl (\<lambda>acc c. 10 * acc + digit_val c) 0 s"

text \<open>
  \<open>int(s)\<close> on a string of \<open>isdigit\<close> characters (the only strings the program
  converts): the value of a non-empty string of decimal digits, and \<open>ValueError\<close> on the
  empty string and on a string with a superscript digit.
\<close>

definition py_int :: "string \<Rightarrow> parse_error + nat" where
  "py_int s = (if s \<noteq> [] \<and> list_all ascii_digit s then Inr (dec_value s) else Inl ValueError)"

text \<open>\<open>str(n)\<close> for a natural number, as the f-strings \<open>run{n}\<close> and \<open>instance{n}\<close> print it.\<close>

definition digit_char :: "nat \<Rightarrow> char" where
  "digit_char d = char_of (48 + d)"

function str_nat :: "nat \<Rightarrow> string" where
  "str_nat n = (if n < 10 then [digit_char n] else str_nat (n div 10) @ [digit_char (n mod 10)])"
  by pat_completeness auto
termination
  by (relation "measure id") auto

declare str_nat.simps [simp del]

section \<open>Name-driven derivations\<close>

text \<open>The canonical SUT name: \<open>SUT\<close> followed by what comes after \<open>vm\<close> or \<open>sut\<close>.\<close>

definition is_sut_name :: "name \<Rightarrow> bool" where
  "is_sut_name d = (startswith (py_lower d) ''vm'' \<or> startswith (py_lower d) ''sut'')"

definition sut_name :: "name \<Rightarrow> name" where
  "sut_name sut = (if startswith (py_lower sut) ''vm'' then ''SUT'' @ drop (length ''VM'') sut
                   else ''SUT'' @ drop (length ''SUT'') sut)"

definition sut_number :: "name \<Rightarrow> string" where
  "sut_number sut = filter py_isdigit sut"

text \<open>The search for the workload-profiler folder of a SUT: the first candidate, in
  enumeration order, whose lower-cased name starts with \<open>wp-\<close> and ends with the SUT's digits.\<close>

definition wp_match :: "name \<Rightarrow> name \<Rightarrow> bool" where
  "wp_match sut candidate =
     (startswith (py_lower candidate) ''wp-'' \<and> endswith (py_lower candidate) (py_lower (sut_number sut)))"

definition find_wp_folder :: "name list \<Rightarrow> name \<Rightarrow> name option" where
  "find_wp_folder candidates sut = List.find (wp_match sut) candidates"

text \<open>The instance number of a log file: the body of the \<open>try\<close> block, then the default.\<close>

definition parse_instance :: "name \<Rightarrow> parse_error + nat" where
  "parse_instance filename =
     (case py_nth (py_split ''log-run'' filename) 1 of
        Inl e \<Rightarrow> Inl e
      | Inr part \<Rightarrow>
          (case py_nth (py_split ''-'' part) 0 of
             Inl e \<Rightarrow> Inl e
           | Inr seg \<Rightarrow> py_int (filter py_isdigit seg)))"

definition instance_num :: "name \<Rightarrow> nat" where
  "instance_num filename =
     (if py_in ''log-run'' filename
      then (case parse_instance filename of Inr n \<Rightarrow> n | Inl e \<Rightarrow> 1)
      else 1)"

text \<open>The text that follows the leftmost occurrence of a separator, if there is one.\<close>

fun after_first :: "string \<Rightarrow> string \<Rightarrow> string option" where
  "after_first sep [] = (if sep = [] then Some [] else None)"
| "after_first sep (c # cs) =
     (if prefix sep (c # cs) then Some (drop (length sep) (c # cs)) else after_first sep cs)"

text \<open>
  The instance number as the specification words it: the digits that come immediately
  after \<open>log-run\<close> and reach up to the next \<open>-\<close>; 1 when that piece is not a number or
  \<open>log-run\<close> is absent.
\<close>

definition spec_instance_num :: "name \<Rightarrow> nat" where
  "spec_instance_num filename =
     (case after_first ''log-run'' filename of
        None \<Rightarrow> 1
      | Some rest \<Rightarrow>
          (let seg = takeWhile (\<lambda>c. c \<noteq> CHR ''-'') rest
           in if seg \<noteq> [] \<and> list_all ascii_digit seg then dec_value seg else 1))"

section \<open>The file system\<close>

text \<open>
  The operating-system layer the program calls.  A file system is a tree; the order of
  the entries of a directory is the order in which \<open>os.listdir\<close> enumerates them.
  There are no symbolic links.  Every failure of a call is a value of type \<open>error\<close>.
\<close>

datatype node = File string | Dir "(name \<times> node) list"

datatype error =
    FileNotFoundError | NotADirectoryError | IsADirectoryError | FileExistsError
  | SameFileError | ShutilError | TarError | OSError

text \<open>
  The writes the program performs, as it asks for them; \<open>WriteFile\<close> is the writing
  of a regular member of an archive.
\<close>

datatype event =
    Makedirs path
  | CopyFile path path
  | CopyTree bool path path
  | WriteFile path string
  | Rmtree path

text \<open>The state: the tree, and the writes done so far, oldest first.\<close>

record state =
  tree :: node
  log :: "event list"

text \<open>
  An archive is a list of members, in the order they are stored.  A member is a directory
  (\<open>None\<close>) or a regular file with its content, under a name.  \<open>tarfile.extractall\<close> is
  called without a filter and joins the name to the directory it unpacks into, so the name
  decides where the member lands: a relative name that first climbs \<open>up\<close> levels with
  \<open>..\<close> (none in a well-behaved archive) and then descends, or an absolute name, which
  leaves the directory altogether.
\<close>

datatype member_name = Relative nat path | Absolute path

type_synonym member = "member_name \<times> string option"

fun member_target :: "path \<Rightarrow> member_name \<Rightarrow> path" where
  "member_target extract_to (Relative up rel) = take (length extract_to - up) extract_to @ rel"
| "member_target extract_to (Absolute p) = p"

text \<open>
  The environment: what the archive library makes of the bytes of a file (\<open>None\<close> when
  it raises \<open>tarfile.TarError\<close>, which it does on opening, before a member is written),
  and which writes the operating system refuses (permissions, full disk, long paths).
\<close>

record env =
  untar :: "string \<Rightarrow> member list option"
  refuse :: "event \<Rightarrow> bool"

fun lookup :: "node \<Rightarrow> path \<Rightarrow> node option" where
  "lookup n [] = Some n"
| "lookup (File c) (x # p) = None"
| "lookup (Dir es) (x # p) = (case map_of es x of None \<Rightarrow> None | Some ch \<Rightarrow> lookup ch p)"

fun upd_entry :: "name \<Rightarrow> node \<Rightarrow> (name \<times> node) list \<Rightarrow> (name \<times> node) list" where
  "upd_entry x v [] = [(x, v)]"
| "upd_entry x v ((y, w) # es) = (if x = y then (x, v) # es else (y, w) # upd_entry x v es)"

fun place :: "(name \<times> node) list \<Rightarrow> name \<Rightarrow> node option \<Rightarrow> (name \<times> node) list" where
  "place es x None = filter (\<lambda>e. fst e \<noteq> x) es"
| "place es x (Some n) = upd_entry x n es"

text \<open>
  One walk down a path serves every write: \<open>f\<close> decides what becomes of the entry at
  the end of the path; missing directories on the way are created when \<open>mkp\<close> is set.
\<close>

fun alter :: "bool \<Rightarrow> (node option \<Rightarrow> error + node option) \<Rightarrow> node \<Rightarrow> path \<Rightarrow> error + node" where
  "alter mkp f n [] =
     (case f (Some n) of Inl e \<Rightarrow> Inl e | Inr None \<Rightarrow> Inl OSError | Inr (Some n') \<Rightarrow> Inr n')"
| "alter mkp f (File c) (x # p) = Inl NotADirectoryError"
| "alter mkp f (Dir es) [x] =
     (case f (map_of es x) of Inl e \<Rightarrow> Inl e | Inr r \<Rightarrow> Inr (Dir (place es x r)))"
| "alter mkp f (Dir es) (x # y # p) =
     (case map_of es x of
        Some ch \<Rightarrow>
          (case alter mkp f ch (y # p) of
             Inl e \<Rightarrow> Inl e
           | Inr ch' \<Rightarrow> Inr (Dir (upd_entry x ch' es)))
      | None \<Rightarrow>
          (if mkp then
             (case alter mkp f (Dir []) (y # p) of
                Inl e \<Rightarrow> Inl e
              | Inr ch' \<Rightarrow> Inr (Dir (es @ [(x, ch')])))
           else Inl FileNotFoundError))"

text \<open>\<open>os.makedirs(p, exist_ok=True)\<close>\<close>

definition mkdir_entry :: "node option \<Rightarrow> error + node option" where
  "mkdir_entry old =
     (case old of
        None \<Rightarrow> Inr (Some (Dir []))
      | Some (Dir es) \<Rightarrow> Inr (Some (Dir es))
      | Some (File c) \<Rightarrow> Inl FileExistsError)"

definition fs_makedirs :: "node \<Rightarrow> path \<Rightarrow> error + node" where
  "fs_makedirs t p = alter True mkdir_entry t p"

text \<open>Writing a file: the directory must be there, and the name must not be a directory's.\<close>

definition file_entry :: "string \<Rightarrow> node option \<Rightarrow> error + node option" where
  "file_entry c old =
     (case old of
        Some (Dir es) \<Rightarrow> Inl IsADirectoryError
      | _ \<Rightarrow> Inr (Some (File c)))"

definition fs_copyfile :: "node \<Rightarrow> path \<Rightarrow> path \<Rightarrow> error + node" where
  "fs_copyfile t src dst =
     (case lookup t src of
        None \<Rightarrow> Inl FileNotFoundError
      | Some (Dir es) \<Rightarrow> Inl IsADirectoryError
      | Some (File c) \<Rightarrow> if src = dst then Inl SameFileError else alter False (file_entry c) t dst)"

text \<open>
  Writing a regular member of an archive: the directories above it are made when they are
  missing, and the file is opened for writing.
\<close>

definition fs_writefile :: "node \<Rightarrow> path \<Rightarrow> string \<Rightarrow> error + node" where
  "fs_writefile t p c = alter True (file_entry c) t p"

text \<open>
  Laying the entries of one directory over those of another, as \<open>shutil.copytree\<close> does
  with \<open>dirs_exist_ok\<close>.  With \<open>into\<close> set, a file copied onto the name of a directory
  lands inside it, as with \<open>shutil.copy2\<close>.
\<close>

definition put_file :: "bool \<Rightarrow> name \<Rightarrow> string \<Rightarrow> (name \<times> node) list \<Rightarrow> error + (name \<times> node) list" where
  "put_file into x c es =
     (case map_of es x of
        None \<Rightarrow> Inr (es @ [(x, File c)])
      | Some (File old) \<Rightarrow> Inr (upd_entry x (File c) es)
      | Some (Dir ds) \<Rightarrow>
          (if into then
             (case map_of ds x of
                Some (Dir sub) \<Rightarrow> Inl IsADirectoryError
              | _ \<Rightarrow> Inr (upd_entry x (Dir (upd_entry x (File c) ds)) es))
           else Inl IsADirectoryError))"

function merge_entries :: "bool \<Rightarrow> (name \<times> node) list \<Rightarrow> (name \<times> node) list \<Rightarrow> error + (name \<times> node) list" where
  "merge_entries into [] ds = Inr ds"
| "merge_entries into ((x, File c) # es) ds =
     (case put_file into x c ds of Inl e \<Rightarrow> Inl e | Inr ds' \<Rightarrow> merge_entries into es ds')"
| "merge_entries into ((x, Dir sub) # es) ds =
     (case map_of ds x of
        Some (File c) \<Rightarrow> Inl FileExistsError
      | Some (Dir old) \<Rightarrow>
          (case merge_entries into sub old of
             Inl e \<Rightarrow> Inl e
           | Inr new \<Rightarrow> merge_entries into es (upd_entry x (Dir new) ds))
      | None \<Rightarrow>
          (case merge_entries into sub [] of
             Inl e \<Rightarrow> Inl e
           | Inr new \<Rightarrow> merge_entries into es (ds @ [(x, Dir new)])))"
  by pat_completeness auto
termination
  by (relation "measure (\<lambda>(into, es, ds). size_list (size_prod (\<lambda>x. 0) size) es)") auto

text \<open>
  \<open>shutil.copytree(src, dst)\<close>, the tree under \<open>src\<close> read when the call starts.  A
  failure of the first \<open>makedirs\<close> is raised as it is; a failure below is raised as
  \<open>shutil.Error\<close>.
\<close>

definition tree_entry :: "bool \<Rightarrow> (name \<times> node) list \<Rightarrow> node option \<Rightarrow> error + node option" where
  "tree_entry exist_ok es old =
     (case old of
        Some (File c) \<Rightarrow> Inl FileExistsError
      | Some (Dir ds) \<Rightarrow>
          (if exist_ok then
             (case merge_entries True es ds of Inl e \<Rightarrow> Inl ShutilError | Inr new \<Rightarrow> Inr (Some (Dir new)))
           else Inl FileExistsError)
      | None \<Rightarrow>
          (case merge_entries True es [] of Inl e \<Rightarrow> Inl ShutilError | Inr new \<Rightarrow> Inr (Some (Dir new))))"

definition fs_copytree :: "bool \<Rightarrow> node \<Rightarrow> path \<Rightarrow> path \<Rightarrow> error + node" where
  "fs_copytree exist_ok t src dst =
     (case lookup t src of
        None \<Rightarrow> Inl FileNotFoundError
      | Some (File c) \<Rightarrow> Inl NotADirectoryError
      | Some (Dir es) \<Rightarrow> alter True (tree_entry exist_ok es) t dst)"

text \<open>\<open>shutil.rmtree(p, ignore_errors=True)\<close>: a directory goes, anything else stays.\<close>

definition rm_entry :: "node option \<Rightarrow> error + node option" where
  "rm_entry old = (case old of Some (Dir es) \<Rightarrow> Inr None | _ \<Rightarrow> Inr old)"

definition fs_rmtree :: "node \<Rightarrow> path \<Rightarrow> node" where
  "fs_rmtree t p = (case alter False rm_entry t p of Inl e \<Rightarrow> t | Inr t' \<Rightarrow> t')"

fun apply_event :: "event \<Rightarrow> node \<Rightarrow> error + node" where
  "apply_event (Makedirs p) t = fs_makedirs t p"
| "apply_event (CopyFile src dst) t = fs_copyfile t src dst"
| "apply_event (CopyTree exist_ok src dst) t = fs_copytree exist_ok t src dst"
| "apply_event (WriteFile p c) t = fs_writefile t p c"
| "apply_event (Rmtree p) t = Inr (fs_rmtree t p)"

text \<open>A write: refused by the environment, failing on the tree, or done and logged.\<close>

definition do_ev :: "env \<Rightarrow> event \<Rightarrow> state \<Rightarrow> error + state" where
  "do_ev E e s =
     (if refuse E e then Inl OSError
      else (case apply_event e (tree s) of
              Inl x \<Rightarrow> Inl x
            | Inr t \<Rightarrow> Inr (s\<lparr>tree := t, log := log s @ [e]\<rparr>)))"

subsection \<open>The calls of \<open>os\<close>, \<open>os.path\<close> and \<open>shutil\<close>\<close>

definition exists :: "state \<Rightarrow> path \<Rightarrow> bool" where
  "exists s p = (lookup (tree s) p \<noteq> None)"

definition isdir :: "state \<Rightarrow> path \<Rightarrow> bool" where
  "isdir s p = (case lookup (tree s) p of Some (Dir es) \<Rightarrow> True | _ \<Rightarrow> False)"

definition isfile :: "state \<Rightarrow> path \<Rightarrow> bool" where
  "isfile s p = (case lookup (tree s) p of Some (File c) \<Rightarrow> True | _ \<Rightarrow> False)"

definition listdir :: "state \<Rightarrow> path \<Rightarrow> error + name list" where
  "listdir s p =
     (case lookup (tree s) p of
        None \<Rightarrow> Inl FileNotFoundError
      | Some (File c) \<Rightarrow> Inl NotADirectoryError
      | Some (Dir es) \<Rightarrow> Inr (map fst es))"

definition basename :: "path \<Rightarrow> name" where
  "basename p = (case rev p of [] \<Rightarrow> [] | x # r \<Rightarrow> x)"

definition dirname :: "path \<Rightarrow> path" where
  "dirname p = butlast p"

definition makedirs :: "env \<Rightarrow> path \<Rightarrow> state \<Rightarrow> error + state" where
  "makedirs E p s = do_ev E (Makedirs p) s"

text \<open>\<open>shutil.copy(src, dst)\<close>: into \<open>dst\<close> when it is a directory, onto it otherwise.\<close>

definition copy :: "env \<Rightarrow> path \<Rightarrow> path \<Rightarrow> state \<Rightarrow> error + state" where
  "copy E src dst s =
     do_ev E (CopyFile src (if isdir s dst then dst @ [basename src] else dst)) s"

definition copytree :: "env \<Rightarrow> bool \<Rightarrow> path \<Rightarrow> path \<Rightarrow> state \<Rightarrow> error + state" where
  "copytree E exist_ok src dst s = do_ev E (CopyTree exist_ok src dst) s"

text \<open>\<open>shutil.rmtree(p, ignore_errors=True)\<close>: a refusal is swallowed and nothing is removed.\<close>

definition rmtree :: "env \<Rightarrow> path \<Rightarrow> state \<Rightarrow> error + state" where
  "rmtree E p s = (if refuse E (Rmtree p) then Inr s else do_ev E (Rmtree p) s)"

text \<open>
  \<open>os.walk(top)\<close>: every directory from the start down, the start first, with its regular files.
  The tree walked is the one present when the walk starts; nothing is yielded when
  the start is not a directory.
\<close>

fun walk :: "node \<Rightarrow> path \<Rightarrow> (path \<times> name list) list" where
  "walk (File c) rel = []"
| "walk (Dir es) rel =
     (rel, map fst (filter (\<lambda>e. case snd e of File c \<Rightarrow> True | Dir ds \<Rightarrow> False) es))
     # concat (map (\<lambda>e. walk (snd e) (rel @ [fst e])) es)"

definition os_walk :: "state \<Rightarrow> path \<Rightarrow> (path \<times> name list) list" where
  "os_walk s start = (case lookup (tree s) start of None \<Rightarrow> [] | Some n \<Rightarrow> walk n [])"

subsection \<open>Sequencing\<close>

fun for_each :: "'a list \<Rightarrow> ('a \<Rightarrow> state \<Rightarrow> error + state) \<Rightarrow> state \<Rightarrow> error + state" where
  "for_each [] body s = Inr s"
| "for_each (x # xs) body s =
     (case body x s of Inl e \<Rightarrow> Inl e | Inr s' \<Rightarrow> for_each xs body s')"

definition and_then :: "error + state \<Rightarrow> (state \<Rightarrow> error + state) \<Rightarrow> error + state" where
  "and_then r k = (case r of Inl e \<Rightarrow> Inl e | Inr s \<Rightarrow> k s)"

text \<open>\<open>enumerate(xs, start=1)\<close>\<close>

definition enumerate1 :: "'a list \<Rightarrow> (nat \<times> 'a) list" where
  "enumerate1 xs = zip [1..<Suc (length xs)] xs"

definition run_name :: "nat \<Rightarrow> name" where
  "run_name n = ''run'' @ str_nat n"

definition instance_name :: "nat \<Rightarrow> name" where
  "instance_name n = ''instance'' @ str_nat n"

section \<open>The program\<close>

text \<open>
  The three source files: \<open>v2restructure.py\<close>, \<open>restructurev3.py\<close> and \<open>restructure.py\<close>.
  Their multi-system pipelines agree but for two calls of \<open>copytree\<close> in the oldest file;
  the single-system pipelines of the two younger files differ.
\<close>

datatype variant = V2 | V3 | Latest

subsection \<open>\<open>extract_tar_gz\<close>\<close>

text \<open>Opening the archive: only a regular file has bytes for the archive library to read.\<close>

definition open_tar :: "env \<Rightarrow> state \<Rightarrow> path \<Rightarrow> error + member list" where
  "open_tar E s tar_path =
     (case lookup (tree s) tar_path of
        None \<Rightarrow> Inl FileNotFoundError
      | Some (Dir es) \<Rightarrow> Inl IsADirectoryError
      | Some (File c) \<Rightarrow> (case untar E c of None \<Rightarrow> Inl TarError | Some members \<Rightarrow> Inr members))"

text \<open>
  \<open>tar.extractall(path=extract_to)\<close>, member by member: a directory is made, a regular
  file is written, each where its name leads from \<open>extract_to\<close>.  A failure here is an
  \<open>OSError\<close>, which the \<open>except tarfile.TarError\<close> of \<open>extract_tar_gz\<close> does not catch.
\<close>

definition unpack :: "env \<Rightarrow> path \<Rightarrow> member \<Rightarrow> state \<Rightarrow> error + state" where
  "unpack E extract_to m s =
     (case snd m of
        None \<Rightarrow> do_ev E (Makedirs (member_target extract_to (fst m))) s
      | Some c \<Rightarrow> do_ev E (WriteFile (member_target extract_to (fst m)) c) s)"

definition extract_tar_gz :: "env \<Rightarrow> path \<Rightarrow> path \<Rightarrow> state \<Rightarrow> error + state" where
  "extract_tar_gz E tar_path extract_to s =
     (if endswith (basename tar_path) ''.tar.gz'' then
        (case makedirs E extract_to s of
           Inl e \<Rightarrow> Inl e
         | Inr s1 \<Rightarrow>
             (case open_tar E s1 tar_path of
                Inl e \<Rightarrow> (if e = TarError then Inr s1 else Inl e)
              | Inr members \<Rightarrow> for_each members (unpack E extract_to) s1))
      else Inr s)"

subsection \<open>Finding the SUT folders\<close>

definition identify_suts :: "state \<Rightarrow> path \<Rightarrow> error + name list" where
  "identify_suts s source_dir =
     (case listdir s source_dir of
        Inl e \<Rightarrow> Inl e
      | Inr ds \<Rightarrow> Inr (filter (\<lambda>d. isdir s (source_dir @ [d]) \<and> is_sut_name d) ds))"

subsection \<open>PlatformProfiler, multi-system\<close>

definition copy_pp_run :: "env \<Rightarrow> path \<Rightarrow> path \<Rightarrow> nat \<times> name \<Rightarrow> state \<Rightarrow> error + state" where
  "copy_pp_run E src_folder_path platform_profiler_dir ix s =
     (let pp_folder = src_folder_path @ [snd ix];
          run_dir = platform_profiler_dir @ [run_name (fst ix)]
      in case makedirs E run_dir s of
           Inl e \<Rightarrow> Inl e
         | Inr s1 \<Rightarrow>
             (case listdir s1 pp_folder of
                Inl e \<Rightarrow> Inl e
              | Inr file_names \<Rightarrow>
                  for_each file_names
                    (\<lambda>file_name s2.
                       if isfile s2 (pp_folder @ [file_name])
                       then copy E (pp_folder @ [file_name]) run_dir s2
                       else Inr s2) s1))"

definition copy_pp_folder :: "env \<Rightarrow> path \<Rightarrow> path \<Rightarrow> name \<Rightarrow> state \<Rightarrow> error + state" where
  "copy_pp_folder E source_dir platform_profiler_dir src_folder_name s =
     (let src_folder_path = source_dir @ [src_folder_name]
      in if exists s src_folder_path then
           (case listdir s src_folder_path of
              Inl e \<Rightarrow> Inl e
            | Inr contents \<Rightarrow>
                (let subdirs = filter (\<lambda>f. isdir s (src_folder_path @ [f])) contents;
                     files = filter (\<lambda>f. isfile s (src_folder_path @ [f])) contents
                 in if files \<noteq> [] \<and> subdirs = [] then
                      for_each files
                        (\<lambda>file_name. copy E (src_folder_path @ [file_name]) platform_profiler_dir) s
                    else if subdirs \<noteq> [] then
                      for_each (enumerate1 (sort subdirs))
                        (copy_pp_run E src_folder_path platform_profiler_dir) s
                    else Inr s))
         else Inr s)"

subsection \<open>WorkloadProfiler, multi-system\<close>

definition is_iteration :: "name \<Rightarrow> bool" where
  "is_iteration d = startswith (py_lower d) ''iteration''"

definition copy_wp_file :: "env \<Rightarrow> path \<Rightarrow> path \<Rightarrow> nat \<times> name \<Rightarrow> state \<Rightarrow> error + state" where
  "copy_wp_file E wp_folder workload_profiler_dir ix s =
     (let run_dir = workload_profiler_dir @ [run_name (fst ix)];
          wp_file = snd ix
      in case listdir s wp_folder of
           Inl e \<Rightarrow> Inl e
         | Inr ds \<Rightarrow>
             (let iteration_folders = filter (\<lambda>d. isdir s (wp_folder @ [d]) \<and> is_iteration d) ds
              in if iteration_folders \<noteq> [] then
                   for_each iteration_folders
                     (\<lambda>iteration s1.
                        and_then (makedirs E (run_dir @ [iteration]) s1)
                          (copy E (wp_folder @ [wp_file]) (run_dir @ [iteration]))) s
                 else
                   and_then (makedirs E (run_dir @ [''iteration1'']) s)
                     (copy E (wp_folder @ [wp_file]) (run_dir @ [''iteration1'']))))"

definition copy_wp :: "env \<Rightarrow> path \<Rightarrow> path \<Rightarrow> name \<Rightarrow> state \<Rightarrow> error + state" where
  "copy_wp E source_dir workload_profiler_dir sut s =
     (case listdir s source_dir of
        Inl e \<Rightarrow> Inl e
      | Inr candidates \<Rightarrow>
          (case find_wp_folder candidates sut of
             None \<Rightarrow> Inr s
           | Some candidate \<Rightarrow>
               (let wp_folder = source_dir @ [candidate]
                in if exists s wp_folder then
                     (case listdir s wp_folder of
                        Inl e \<Rightarrow> Inl e
                      | Inr fs \<Rightarrow>
                          (let wp_files = sort (filter (\<lambda>f. endswith (py_lower f) ''.json'') fs)
                           in for_each (enumerate1 wp_files)
                                (copy_wp_file E wp_folder workload_profiler_dir) s))
                   else Inr s)))"

subsection \<open>Results, multi-system\<close>

text \<open>A file of a run: into the instance folder its name tells.\<close>

definition copy_log_file :: "env \<Rightarrow> path \<Rightarrow> nat \<Rightarrow> name \<Rightarrow> path \<Rightarrow> state \<Rightarrow> error + state" where
  "copy_log_file E results_dir run_number iteration source_item s =
     (let filename = basename source_item;
          target_instance_dir =
            results_dir @ [run_name run_number, iteration, instance_name (instance_num filename)]
      in and_then (makedirs E target_instance_dir s) (copy E source_item target_instance_dir))"

text \<open>An iteration folder with instance folders: each is copied as it is.\<close>

definition copy_instance ::
  "variant \<Rightarrow> env \<Rightarrow> path \<Rightarrow> nat \<Rightarrow> name \<Rightarrow> path \<Rightarrow> name \<Rightarrow> state \<Rightarrow> error + state" where
  "copy_instance v E results_dir run_number iteration iteration_path instance s =
     (let target_instance_dir = results_dir @ [run_name run_number, iteration, instance]
      in case makedirs E target_instance_dir s of
           Inl e \<Rightarrow> Inl e
         | Inr s1 \<Rightarrow>
             (case listdir s1 (iteration_path @ [instance]) of
                Inl e \<Rightarrow> Inl e
              | Inr items \<Rightarrow>
                  for_each items
                    (\<lambda>item s2.
                       (let source_item = iteration_path @ [instance, item]
                        in if isfile s2 source_item then copy E source_item target_instance_dir s2
                           else if isdir s2 source_item then
                             copytree E (v \<noteq> V2) source_item (target_instance_dir @ [item]) s2
                           else Inr s2)) s1))"

text \<open>An iteration folder without instance folders: one instance folder for each log file.\<close>

definition classify_item ::
  "variant \<Rightarrow> env \<Rightarrow> path \<Rightarrow> nat \<Rightarrow> name \<Rightarrow> path \<Rightarrow> name \<Rightarrow> state \<Rightarrow> error + state" where
  "classify_item v E results_dir run_number iteration iteration_path item s =
     (let source_item = iteration_path @ [item]
      in if isfile s source_item then copy_log_file E results_dir run_number iteration source_item s
         else if isdir s source_item then
           (let target_dir = results_dir @ [run_name run_number, iteration, ''instance1'', item]
            in and_then
                 (makedirs E (if v = V2 then target_dir else dirname target_dir) s)
                 (copytree E True source_item target_dir))
         else Inr s)"

definition copy_iteration ::
  "variant \<Rightarrow> env \<Rightarrow> path \<Rightarrow> nat \<Rightarrow> path \<Rightarrow> name \<Rightarrow> state \<Rightarrow> error + state" where
  "copy_iteration v E results_dir run_number run_path iteration s =
     (let iteration_path = run_path @ [iteration]
      in case listdir s iteration_path of
           Inl e \<Rightarrow> Inl e
         | Inr ds \<Rightarrow>
             (let instance_folders = filter (\<lambda>d. isdir s (iteration_path @ [d])) ds
              in if instance_folders \<noteq> [] then
                   for_each instance_folders
                     (copy_instance v E results_dir run_number iteration iteration_path) s
                 else
                   (case listdir s iteration_path of
                      Inl e \<Rightarrow> Inl e
                    | Inr items \<Rightarrow>
                        for_each items
                          (classify_item v E results_dir run_number iteration iteration_path) s)))"

text \<open>A run folder without iteration folders.\<close>

definition no_iterations :: "env \<Rightarrow> path \<Rightarrow> nat \<Rightarrow> path \<Rightarrow> state \<Rightarrow> error + state" where
  "no_iterations E results_dir run_number run_path s =
     (let benchmarklog_dir = run_path @ [''BenchmarkLog'']
      in case (if exists s benchmarklog_dir then listdir s benchmarklog_dir else listdir s run_path) of
           Inl e \<Rightarrow> Inl e
         | Inr items \<Rightarrow>
             for_each items
               (\<lambda>item s1.
                  (let source_item =
                         (if exists s1 benchmarklog_dir then benchmarklog_dir else run_path) @ [item]
                   in if isfile s1 source_item
                      then copy_log_file E results_dir run_number ''iteration1'' source_item s1
                      else Inr s1)) s)"

definition copy_run :: "variant \<Rightarrow> env \<Rightarrow> path \<Rightarrow> nat \<Rightarrow> path \<Rightarrow> state \<Rightarrow> error + state" where
  "copy_run v E results_dir run_number run_path s =
     (case listdir s run_path of
        Inl e \<Rightarrow> Inl e
      | Inr ds \<Rightarrow>
          (let iteration_folders = filter (\<lambda>d. isdir s (run_path @ [d]) \<and> is_iteration d) ds
           in if iteration_folders \<noteq> [] then
                for_each iteration_folders (copy_iteration v E results_dir run_number run_path) s
              else no_iterations E results_dir run_number run_path s))"

text \<open>The loop over the sorted entries of the SUT folder, with its counter \<open>run_number\<close>.\<close>

fun results_loop ::
  "variant \<Rightarrow> env \<Rightarrow> path \<Rightarrow> path \<Rightarrow> name list \<Rightarrow> nat \<Rightarrow> state \<Rightarrow> error + state" where
  "results_loop v E results_dir vm_dir [] run_number s = Inr s"
| "results_loop v E results_dir vm_dir (run_dir_name # rest) run_number s =
     (if \<not> isdir s (vm_dir @ [run_dir_name]) then
        results_loop v E results_dir vm_dir rest run_number s
      else
        (case copy_run v E results_dir run_number (vm_dir @ [run_dir_name]) s of
           Inl e \<Rightarrow> Inl e
         | Inr s1 \<Rightarrow> results_loop v E results_dir vm_dir rest (run_number + 1) s1))"

definition copy_results :: "variant \<Rightarrow> env \<Rightarrow> path \<Rightarrow> path \<Rightarrow> name \<Rightarrow> state \<Rightarrow> error + state" where
  "copy_results v E source_dir results_dir sut s =
     (let vm_dir = source_dir @ [sut]
      in case listdir s vm_dir of
           Inl e \<Rightarrow> Inl e
         | Inr ds \<Rightarrow> results_loop v E results_dir vm_dir (sort ds) 1 s)"

subsection \<open>The multi-system pipeline\<close>

text \<open>The SUT directory and its three canonical directories.\<close>

definition make_skeleton :: "env \<Rightarrow> path \<Rightarrow> state \<Rightarrow> error + state" where
  "make_skeleton E sut_dir s =
     and_then (and_then (and_then
       (makedirs E sut_dir s)
       (makedirs E (sut_dir @ [''PlatformProfiler''])))
       (makedirs E (sut_dir @ [''WorkloadProfiler''])))
       (makedirs E (sut_dir @ [''Results'']))"

definition process_sut :: "variant \<Rightarrow> env \<Rightarrow> path \<Rightarrow> path \<Rightarrow> name \<Rightarrow> state \<Rightarrow> error + state" where
  "process_sut v E source_dir uuid_dir sut s =
     (let sut_dir = uuid_dir @ [sut_name sut];
          platform_profiler_dir = sut_dir @ [''PlatformProfiler''];
          workload_profiler_dir = sut_dir @ [''WorkloadProfiler''];
          results_dir = sut_dir @ [''Results'']
      in and_then (and_then (and_then
           (make_skeleton E sut_dir s)
           (for_each [''PlatformProfile'', ''Host-pp'']
              (copy_pp_folder E source_dir platform_profiler_dir)))
           (copy_wp E source_dir workload_profiler_dir sut))
           (copy_results v E source_dir results_dir sut))"

definition copy_root_files :: "env \<Rightarrow> path \<Rightarrow> path \<Rightarrow> name list \<Rightarrow> state \<Rightarrow> error + state" where
  "copy_root_files E source_dir uuid_dir suts s =
     (case listdir s source_dir of
        Inl e \<Rightarrow> Inl e
      | Inr items \<Rightarrow>
          for_each items
            (\<lambda>item s1.
               (let source_item = source_dir @ [item]
                in if isfile s1 source_item then
                     for_each suts (\<lambda>sut. copy E source_item (uuid_dir @ [sut_name sut])) s1
                   else Inr s1)) s)"

definition multi_system ::
  "variant \<Rightarrow> env \<Rightarrow> path \<Rightarrow> path \<Rightarrow> name list \<Rightarrow> state \<Rightarrow> error + state" where
  "multi_system v E source_dir uuid_dir suts s =
     and_then (for_each suts (process_sut v E source_dir uuid_dir) s)
       (copy_root_files E source_dir uuid_dir suts)"

subsection \<open>The single-system pipeline, shared parts\<close>

definition json_or_targz :: "name \<Rightarrow> bool" where
  "json_or_targz item = (endswith (py_lower item) ''.json'' \<or> endswith (py_lower item) ''.tar.gz'')"

definition json_or_txt :: "name \<Rightarrow> bool" where
  "json_or_txt item = (endswith (py_lower item) ''.json'' \<or> endswith (py_lower item) ''.txt'')"

definition single_platform_profile :: "env \<Rightarrow> path \<Rightarrow> path \<Rightarrow> state \<Rightarrow> error + state" where
  "single_platform_profile E source_dir platform_profiler_dir s =
     (let platform_src = source_dir @ [''PlatformProfile'']
      in if exists s platform_src then
           (case listdir s platform_src of
              Inl e \<Rightarrow> Inl e
            | Inr items \<Rightarrow>
                for_each items
                  (\<lambda>item s1.
                     (let source_item = platform_src @ [item]
                      in if isfile s1 source_item then copy E source_item platform_profiler_dir s1
                         else if isdir s1 source_item then
                           copytree E True source_item (platform_profiler_dir @ [item]) s1
                         else Inr s1)) s)
         else Inr s)"

text \<open>Every regular file found by a walk of \<open>start\<close>, copied flat into one directory.\<close>

definition copy_walk_flat :: "env \<Rightarrow> path \<Rightarrow> path \<Rightarrow> state \<Rightarrow> error + state" where
  "copy_walk_flat E start target_dir s =
     for_each (os_walk s start)
       (\<lambda>rf. for_each (snd rf) (\<lambda>file. copy E (start @ fst rf @ [file]) target_dir)) s"

definition first_instance_dir :: "path \<Rightarrow> nat \<Rightarrow> path" where
  "first_instance_dir results_dir run_idx =
     results_dir @ [run_name run_idx, ''iteration1'', ''instance1'']"

subsection \<open>The single-system pipeline of \<open>restructure.py\<close>\<close>

text \<open>Step 1: the run folders under \<open>Logs\<close>, sorted; none when \<open>Logs\<close> is absent.\<close>

definition find_log_subfolders :: "state \<Rightarrow> path \<Rightarrow> error + name list" where
  "find_log_subfolders s logs_src =
     (if exists s logs_src then
        (case listdir s logs_src of
           Inl e \<Rightarrow> Inl e
         | Inr ds \<Rightarrow> Inr (sort (filter (\<lambda>d. isdir s (logs_src @ [d])) ds)))
      else Inr [])"

definition num_runs :: "name list \<Rightarrow> nat" where
  "num_runs log_subfolders = (if log_subfolders \<noteq> [] then length log_subfolders else 1)"

text \<open>
  Step 2: the artifact to replicate.  \<open>art_path\<close> is \<open>wp_artifact_path\<close>, \<open>art_is_tar\<close> is
  \<open>wp_artifact_is_tar\<close> and \<open>art_temp\<close> is \<open>extracted_temp\<close>.
\<close>

record artifact =
  art_path :: path
  art_is_tar :: bool
  art_temp :: "path option"

definition find_wp_artifact ::
  "env \<Rightarrow> string \<Rightarrow> path \<Rightarrow> state \<Rightarrow> error + (artifact option \<times> state)" where
  "find_wp_artifact E temp_uuid wp_src s =
     (if exists s wp_src then
        (case listdir s wp_src of
           Inl e \<Rightarrow> Inl e
         | Inr items \<Rightarrow>
             (case List.find (\<lambda>item. isfile s (wp_src @ [item]) \<and> json_or_targz item) (sort items) of
                None \<Rightarrow> Inr (None, s)
              | Some item \<Rightarrow>
                  (let source_item = wp_src @ [item]
                   in if endswith (py_lower item) ''.tar.gz'' then
                        (let extracted_temp = wp_src @ [''extracted_wp_temp_'' @ temp_uuid]
                         in case extract_tar_gz E source_item extracted_temp s of
                              Inl e \<Rightarrow> Inl e
                            | Inr s1 \<Rightarrow>
                                Inr (Some \<lparr>art_path = source_item, art_is_tar = True,
                                           art_temp = Some extracted_temp\<rparr>, s1))
                      else Inr (Some \<lparr>art_path = source_item, art_is_tar = False,
                                      art_temp = None\<rparr>, s))))
      else Inr (None, s))"

text \<open>Step 3: the artifact into \<open>iteration1\<close> of every run.\<close>

definition replicate_run :: "env \<Rightarrow> path \<Rightarrow> artifact \<Rightarrow> nat \<Rightarrow> state \<Rightarrow> error + state" where
  "replicate_run E workload_profiler_dir a run_idx s =
     (let target_dir = workload_profiler_dir @ [run_name run_idx, ''iteration1'']
      in case makedirs E target_dir s of
           Inl e \<Rightarrow> Inl e
         | Inr s1 \<Rightarrow>
             (if art_is_tar a then
                (case art_temp a of
                   None \<Rightarrow> Inr s1
                 | Some extracted_temp \<Rightarrow>
                     if exists s1 extracted_temp then copy_walk_flat E extracted_temp target_dir s1
                     else Inr s1)
              else copy E (art_path a) target_dir s1))"

definition replicate_artifact ::
  "env \<Rightarrow> path \<Rightarrow> artifact option \<Rightarrow> nat \<Rightarrow> state \<Rightarrow> error + state" where
  "replicate_artifact E workload_profiler_dir wp_artifact n s =
     (case wp_artifact of
        None \<Rightarrow> Inr s
      | Some a \<Rightarrow> for_each [1..<Suc n] (replicate_run E workload_profiler_dir a) s)"

text \<open>Step 4: the logs, one run for each folder under \<open>Logs\<close>, the folder's tree kept.\<close>

definition copy_log_run :: "env \<Rightarrow> path \<Rightarrow> path \<Rightarrow> nat \<times> name \<Rightarrow> state \<Rightarrow> error + state" where
  "copy_log_run E logs_src results_dir ix s =
     (let sub_path = logs_src @ [snd ix];
          instance_dir = first_instance_dir results_dir (fst ix)
      in case makedirs E instance_dir s of
           Inl e \<Rightarrow> Inl e
         | Inr s1 \<Rightarrow>
             for_each (os_walk s1 sub_path)
               (\<lambda>rf s2.
                  (let current_target_dir = instance_dir @ fst rf
                   in case makedirs E current_target_dir s2 of
                        Inl e \<Rightarrow> Inl e
                      | Inr s3 \<Rightarrow>
                          for_each (snd rf)
                            (\<lambda>file. copy E (sub_path @ fst rf @ [file]) current_target_dir) s3)) s1)"

definition copy_logs :: "env \<Rightarrow> path \<Rightarrow> path \<Rightarrow> name list \<Rightarrow> state \<Rightarrow> error + state" where
  "copy_logs E logs_src results_dir log_subfolders s =
     (if exists s logs_src then
        (if log_subfolders = [] then
           (let instance_dir = first_instance_dir results_dir 1
            in case makedirs E instance_dir s of
                 Inl e \<Rightarrow> Inl e
               | Inr s1 \<Rightarrow>
                   (case listdir s1 logs_src of
                      Inl e \<Rightarrow> Inl e
                    | Inr items \<Rightarrow>
                        for_each items
                          (\<lambda>item s2.
                             (let src_item = logs_src @ [item]
                              in if isfile s2 src_item then copy E src_item instance_dir s2
                                 else if isdir s2 src_item then
                                   copytree E True src_item (instance_dir @ [item]) s2
                                 else Inr s2)) s1))
         else for_each (enumerate1 log_subfolders) (copy_log_run E logs_src results_dir) s)
      else Inr s)"

text \<open>Step 5: the files at the root of the source.\<close>

definition route_root_file :: "env \<Rightarrow> path \<Rightarrow> path \<Rightarrow> path \<Rightarrow> name \<Rightarrow> state \<Rightarrow> error + state" where
  "route_root_file E source_dir sut_dir results_dir item s =
     (let source_item = source_dir @ [item]
      in if \<not> isfile s source_item then Inr s
         else if py_lower item = ''epyc_manual_result.json'' then copy E source_item sut_dir s
         else if json_or_txt item then
           (let instance_dir = first_instance_dir results_dir 1
            in and_then (makedirs E instance_dir s) (copy E source_item instance_dir))
         else Inr s)"

definition route_root_files :: "env \<Rightarrow> path \<Rightarrow> path \<Rightarrow> path \<Rightarrow> state \<Rightarrow> error + state" where
  "route_root_files E source_dir sut_dir results_dir s =
     (case listdir s source_dir of
        Inl e \<Rightarrow> Inl e
      | Inr items \<Rightarrow> for_each items (route_root_file E source_dir sut_dir results_dir) s)"

definition cleanup :: "env \<Rightarrow> artifact option \<Rightarrow> state \<Rightarrow> error + state" where
  "cleanup E wp_artifact s =
     (case wp_artifact of
        None \<Rightarrow> Inr s
      | Some a \<Rightarrow>
          (case art_temp a of
             None \<Rightarrow> Inr s
           | Some extracted_temp \<Rightarrow>
               if exists s extracted_temp then rmtree E extracted_temp s else Inr s))"

definition single_system :: "env \<Rightarrow> string \<Rightarrow> path \<Rightarrow> path \<Rightarrow> state \<Rightarrow> error + state" where
  "single_system E temp_uuid source_dir uuid_dir s =
     (let sut_dir = uuid_dir @ [''SUT1''];
          platform_profiler_dir = sut_dir @ [''PlatformProfiler''];
          workload_profiler_dir = sut_dir @ [''WorkloadProfiler''];
          results_dir = sut_dir @ [''Results''];
          logs_src = source_dir @ [''Logs''];
          wp_src = source_dir @ [''WorkloadProfiler'']
      in case make_skeleton E sut_dir s of
           Inl e \<Rightarrow> Inl e
         | Inr s1 \<Rightarrow>
             (case find_log_subfolders s1 logs_src of
                Inl e \<Rightarrow> Inl e
              | Inr log_subfolders \<Rightarrow>
                  (case find_wp_artifact E temp_uuid wp_src s1 of
                     Inl e \<Rightarrow> Inl e
                   | Inr (wp_artifact, s2) \<Rightarrow>
                       and_then (and_then (and_then (and_then
                         (single_platform_profile E source_dir platform_profiler_dir s2)
                         (replicate_artifact E workload_profiler_dir wp_artifact
                            (num_runs log_subfolders)))
                         (copy_logs E logs_src results_dir log_subfolders))
                         (route_root_files E source_dir sut_dir results_dir))
                         (cleanup E wp_artifact))))"

subsection \<open>The single-system pipeline of \<open>restructurev3.py\<close>\<close>

text \<open>One run for each archive or loose file under \<open>WorkloadProfiler\<close>, in sorted order.\<close>

fun wp_items_v3 :: "env \<Rightarrow> path \<Rightarrow> path \<Rightarrow> name list \<Rightarrow> nat \<Rightarrow> state \<Rightarrow> error + state" where
  "wp_items_v3 E wp_src workload_profiler_dir [] run_idx s = Inr s"
| "wp_items_v3 E wp_src workload_profiler_dir (item # rest) run_idx s =
     (let source_item = wp_src @ [item];
          target_dir = workload_profiler_dir @ [run_name run_idx, ''iteration1'']
      in if endswith item ''.tar.gz'' then
           (let extract_temp = wp_src @ [''extracted_wp_temp_'' @ str_nat run_idx]
            in case and_then (and_then (and_then
                      (extract_tar_gz E source_item extract_temp s)
                      (makedirs E target_dir))
                      (copy_walk_flat E extract_temp target_dir))
                      (rmtree E extract_temp) of
                 Inl e \<Rightarrow> Inl e
               | Inr s1 \<Rightarrow> wp_items_v3 E wp_src workload_profiler_dir rest (run_idx + 1) s1)
         else if isfile s source_item then
           (case and_then (makedirs E target_dir s) (copy E source_item target_dir) of
              Inl e \<Rightarrow> Inl e
            | Inr s1 \<Rightarrow> wp_items_v3 E wp_src workload_profiler_dir rest (run_idx + 1) s1)
         else wp_items_v3 E wp_src workload_profiler_dir rest run_idx s)"

definition copy_wp_v3 :: "env \<Rightarrow> path \<Rightarrow> path \<Rightarrow> state \<Rightarrow> error + state" where
  "copy_wp_v3 E source_dir workload_profiler_dir s =
     (let wp_src = source_dir @ [''WorkloadProfiler'']
      in if exists s wp_src then
           (case listdir s wp_src of
              Inl e \<Rightarrow> Inl e
            | Inr items \<Rightarrow> wp_items_v3 E wp_src workload_profiler_dir (sort items) 1 s)
         else Inr s)"

definition copy_logs_v3 :: "env \<Rightarrow> path \<Rightarrow> path \<Rightarrow> state \<Rightarrow> error + state" where
  "copy_logs_v3 E source_dir results_dir s =
     (let logs_src = source_dir @ [''Logs'']
      in if exists s logs_src then
           (case listdir s logs_src of
              Inl e \<Rightarrow> Inl e
            | Inr ds \<Rightarrow>
                (let log_subfolders = filter (\<lambda>d. isdir s (logs_src @ [d])) (sort ds)
                 in if log_subfolders = [] then
                      (let instance_dir = first_instance_dir results_dir 1
                       in case makedirs E instance_dir s of
                            Inl e \<Rightarrow> Inl e
                          | Inr s1 \<Rightarrow>
                              (case listdir s1 logs_src of
                                 Inl e \<Rightarrow> Inl e
                               | Inr files \<Rightarrow>
                                   for_each files
                                     (\<lambda>file s2.
                                        if isfile s2 (logs_src @ [file])
                                        then copy E (logs_src @ [file]) instance_dir s2
                                        else Inr s2) s1))
                    else
                      for_each (enumerate1 log_subfolders)
                        (\<lambda>ix s1.
                           (let instance_dir = first_instance_dir results_dir (fst ix)
                            in and_then (makedirs E instance_dir s1)
                                 (copy_walk_flat E (logs_src @ [snd ix]) instance_dir))) s))
         else Inr s)"

definition route_root_files_v3 :: "env \<Rightarrow> path \<Rightarrow> path \<Rightarrow> state \<Rightarrow> error + state" where
  "route_root_files_v3 E source_dir results_dir s =
     (case listdir s source_dir of
        Inl e \<Rightarrow> Inl e
      | Inr items \<Rightarrow>
          for_each items
            (\<lambda>item s1.
               (let source_item = source_dir @ [item]
                in if isfile s1 source_item \<and> json_or_txt item then
                     (let instance_dir = first_instance_dir results_dir 1
                      in and_then (makedirs E instance_dir s1) (copy E source_item instance_dir))
                   else Inr s1)) s)"

definition single_system_v3 :: "env \<Rightarrow> path \<Rightarrow> path \<Rightarrow> state \<Rightarrow> error + state" where
  "single_system_v3 E source_dir uuid_dir s =
     (let sut_dir = uuid_dir @ [''SUT1''];
          platform_profiler_dir = sut_dir @ [''PlatformProfiler''];
          workload_profiler_dir = sut_dir @ [''WorkloadProfiler''];
          results_dir = sut_dir @ [''Results'']
      in and_then (and_then (and_then (and_then
           (make_skeleton E sut_dir s)
           (single_platform_profile E source_dir platform_profiler_dir))
           (copy_wp_v3 E source_dir workload_profiler_dir))
           (copy_logs_v3 E source_dir results_dir))
           (route_root_files_v3 E source_dir results_dir))"

subsection \<open>\<open>restructure_directory\<close>\<close>

text \<open>
  \<open>uuid_folder\<close> and \<open>temp_uuid\<close> are the two values \<open>uuid.uuid4()\<close> returns.  The oldest
  file has no single-system branch: without SUT folders its loops run over nothing.
\<close>

definition restructure_directory ::
  "variant \<Rightarrow> env \<Rightarrow> string \<Rightarrow> string \<Rightarrow> path \<Rightarrow> path \<Rightarrow> state \<Rightarrow> error + state" where
  "restructure_directory v E uuid_folder temp_uuid source_dir target_dir s =
     (let uuid_dir = target_dir @ [uuid_folder]
      in case makedirs E uuid_dir s of
           Inl e \<Rightarrow> Inl e
         | Inr s1 \<Rightarrow>
             (case identify_suts s1 source_dir of
                Inl e \<Rightarrow> Inl e
              | Inr suts \<Rightarrow>
                  if suts \<noteq> [] \<or> v = V2 then multi_system v E source_dir uuid_dir suts s1
                  else if v = V3 then single_system_v3 E source_dir uuid_dir s1
                  else single_system E temp_uuid source_dir uuid_dir s1))"

section \<open>Footprints\<close>

text \<open>Two paths lie apart when neither leads to the other: no entry is below both.\<close>

definition apart :: "path \<Rightarrow> path \<Rightarrow> bool" where
  "apart p q = (\<not> prefix p q \<and> \<not> prefix q p)"

text \<open>The path a write is directed at.\<close>

fun target :: "event \<Rightarrow> path" where
  "target (Makedirs p) = p"
| "target (CopyFile src dst) = dst"
| "target (CopyTree exist_ok src dst) = dst"
| "target (WriteFile p c) = p"
| "target (Rmtree p) = p"

text \<open>Doing a list of writes, one after the other, on a tree.\<close>

fun replay :: "event list \<Rightarrow> node \<Rightarrow> error + node" where
  "replay [] t = Inr t"
| "replay (e # es) t = (case apply_event e t of Inl x \<Rightarrow> Inl x | Inr t' \<Rightarrow> replay es t')"

text \<open>
  From \<open>s\<close> to \<open>s'\<close> the program performed some writes, all of them satisfying \<open>P\<close>,
  and nothing else changed the tree.
\<close>

text \<open>A write at or below \<open>D\<close>, not a removal, that the environment lets through.\<close>

definition writes_in :: "(event \<Rightarrow> bool) \<Rightarrow> state \<Rightarrow> state \<Rightarrow> bool" where
  "writes_in P s s' =
     (\<exists>evs. log s' = log s @ evs \<and> list_all P evs \<and> replay evs (tree s) = Inr (tree s'))"

text \<open>A write at or below \<open>D\<close>, not a removal, that the environment lets through.\<close>

fun is_rmtree :: "event \<Rightarrow> bool" where
  "is_rmtree (Rmtree p) = True"
| "is_rmtree e = False"

definition wr :: "env \<Rightarrow> path \<Rightarrow> event \<Rightarrow> bool" where
  "wr E D e = (prefix D (target e) \<and> \<not> refuse E e \<and> \<not> is_rmtree e)"




text \<open>There is a directory at a path of a tree.\<close>

definition dir_at :: "node \<Rightarrow> path \<Rightarrow> bool" where
  "dir_at t p = (case lookup t p of Some (Dir d) \<Rightarrow> True | _ \<Rightarrow> False)"

section \<open>Example inputs\<close>

text \<open>A state with nothing written yet.\<close>

definition fresh_state :: "node \<Rightarrow> state" where
  "fresh_state t = \<lparr>tree = t, log = []\<rparr>"

text \<open>An environment that refuses nothing and knows one well-formed archive.\<close>

definition demo_env :: env where
  "demo_env =
     \<lparr>untar = (\<lambda>c. if c = ''TAR''
                      then Some [(Relative 0 [''m.json''], Some ''M''),
                                 (Relative 0 [''d''], None),
                                 (Relative 0 [''d'', ''n.txt''], Some ''N'')]
                      else None),
      refuse = (\<lambda>e. False)\<rparr>"

text \<open>The same, but the archive has a member named \<open>../leak.json\<close>.\<close>

definition climbing_env :: env where
  "climbing_env =
     \<lparr>untar = (\<lambda>c. if c = ''TAR''
                      then Some [(Relative 0 [''m.json''], Some ''M''),
                                 (Relative 1 [''leak.json''], Some ''L'')]
                      else None),
      refuse = (\<lambda>e. False)\<rparr>"

text \<open>What is under \<open>source_dir\<close> after a run.\<close>

definition source_after ::
  "variant \<Rightarrow> env \<Rightarrow> string \<Rightarrow> string \<Rightarrow> path \<Rightarrow> path \<Rightarrow> state \<Rightarrow> error + node option" where
  "source_after v E uuid_folder temp_uuid source_dir target_dir s =
     (case restructure_directory v E uuid_folder temp_uuid source_dir target_dir s of
        Inl e \<Rightarrow> Inl e
      | Inr s' \<Rightarrow> Inr (lookup (tree s') source_dir))"

text \<open>A single-system source with three log folders and an archive.\<close>

definition single_tree :: node where
  "single_tree =
     Dir [(''src'',
           Dir [(''Logs'',
                 Dir [(''c'', Dir []),
                      (''a'', Dir [(''l.txt'', File ''L''), (''s'', Dir [(''deep'', File ''D'')])]),
                      (''b'', Dir [])]),
                (''WorkloadProfiler'', Dir [(''capture.tar.gz'', File ''TAR'')]),
                (''EPYC_manual_result.json'', File ''E''),
                (''x.TXT'', File ''X'')]),
          (''out'', Dir [])]"

text \<open>The same source with a folder of its own named like the throwaway directory of
  \<open>restructurev3.py\<close>.\<close>

definition clash_tree :: node where
  "clash_tree =
     Dir [(''src'',
           Dir [(''WorkloadProfiler'',
                 Dir [(''capture.tar.gz'', File ''TAR''),
                      (''extracted_wp_temp_1'', Dir [(''keep.txt'', File ''K'')])])]),
          (''out'', Dir [])]"






section \<open>Properties of the name-driven derivations\<close>

lemma py_split_not_Nil: "py_split sep s \<noteq> []"
  by (induction sep s rule: py_split.induct)
     (subst py_split.simps, auto split: list.splits)

lemma hd_py_split_dash: "hd (py_split ''-'' x) = takeWhile (\<lambda>c. c \<noteq> CHR ''-'') x"
proof (induction x)
  case Nil
  show ?case by (subst py_split.simps) simp
next
  case (Cons c cs)
  show ?case
  proof (cases "c = CHR ''-''")
    case True
    then show ?thesis by (subst py_split.simps) simp
  next
    case False
    then show ?thesis using Cons py_split_not_Nil [of "''-''" cs]
      by (subst py_split.simps) (auto split: list.splits)
  qed
qed

lemma py_in_after_first: "sep \<noteq> [] \<Longrightarrow> py_in sep s = (after_first sep s \<noteq> None)"
  by (induction s) auto

lemma py_split_after_first:
  "sep \<noteq> [] \<Longrightarrow> after_first sep s = Some rest \<Longrightarrow>
   length (py_split sep s) \<ge> 2 \<and> py_split sep s ! 1 = hd (py_split sep rest)"
proof (induction s)
  case Nil
  then show ?case by simp
next
  case (Cons c cs)
  show ?case
  proof (cases "prefix sep (c # cs)")
    case True
    then have r: "rest = drop (length sep) (c # cs)" using Cons.prems by simp
    have "py_split sep (c # cs) = [] # py_split sep rest"
      using True Cons.prems(1) r by (subst py_split.simps) simp
    then show ?thesis using py_split_not_Nil [of sep rest]
      by (cases "py_split sep rest") auto
  next
    case False
    then have a: "after_first sep cs = Some rest" using Cons.prems by simp
    from Cons.IH [OF Cons.prems(1) a] obtain w ws where
      w: "py_split sep cs = w # ws" and l: "length (py_split sep cs) \<ge> 2"
      and n: "py_split sep cs ! 1 = hd (py_split sep rest)"
      by (cases "py_split sep cs") auto
    have "py_split sep (c # cs) = (c # w) # ws"
      using False w by (subst py_split.simps) simp
    then show ?thesis using w l n by simp
  qed
qed

text \<open>
  Cutting the text after \<open>log-run\<close> at the next \<open>log-run\<close> first, as \<open>split\<close> does,
  loses no digit: the separator itself holds a \<open>-\<close> and no digit before it.
\<close>

lemma digits_of_first_piece:
  "filter py_isdigit (takeWhile (\<lambda>c. c \<noteq> CHR ''-'') (hd (py_split ''log-run'' r)))
   = filter py_isdigit (takeWhile (\<lambda>c. c \<noteq> CHR ''-'') r)"
proof (induction r)
  case Nil
  show ?case by (subst py_split.simps) simp
next
  case (Cons c cs)
  show ?case
  proof (cases "prefix ''log-run'' (c # cs)")
    case True
    then obtain t where t: "c # cs = ''log-run'' @ t" by (auto simp: prefix_def)
    have "hd (py_split ''log-run'' (c # cs)) = []"
      using True by (subst py_split.simps) simp
    moreover have "filter py_isdigit (takeWhile (\<lambda>c. c \<noteq> CHR ''-'') (''log-run'' @ t)) = []"
      by (simp add: py_isdigit_def)
    ultimately show ?thesis using t by simp
  next
    case False
    obtain w ws where w: "py_split ''log-run'' cs = w # ws"
      using py_split_not_Nil [of "''log-run''" cs] by (cases "py_split ''log-run'' cs") auto
    have "py_split ''log-run'' (c # cs) = (c # w) # ws"
      using False w by (subst py_split.simps) simp
    then show ?thesis using Cons w by simp
  qed
qed

lemma parse_instance_after_first:
  assumes "after_first ''log-run'' f = Some rest"
  shows "parse_instance f = py_int (filter py_isdigit (takeWhile (\<lambda>c. c \<noteq> CHR ''-'') rest))"
proof -
  have ne: "''log-run'' \<noteq> []" by simp
  from py_split_after_first [OF ne assms]
  have l: "1 < length (py_split ''log-run'' f)"
    and n: "py_split ''log-run'' f ! 1 = hd (py_split ''log-run'' rest)" by auto
  have z: "0 < length (py_split ''-'' p)" for p
    using py_split_not_Nil [of "''-''" p] by simp
  have h: "py_split ''-'' p ! 0 = takeWhile (\<lambda>c. c \<noteq> CHR ''-'') p" for p
    using hd_py_split_dash [of p] py_split_not_Nil [of "''-''" p]
    by (cases "py_split ''-'' p") auto
  show ?thesis
    unfolding parse_instance_def py_nth_def using l n z h digits_of_first_piece [of rest]
    by simp
qed

text \<open>
  C5 (as amended).  The instance number of a file is 1 when its name has no \<open>log-run\<close>.
  Otherwise take the text after the leftmost \<open>log-run\<close> up to the next \<open>-\<close> (or the end
  of the name) and keep all its digit characters, wherever they stand in that piece: the
  instance number is the decimal value of the digits kept, and 1 when none is kept or one
  of them is not a decimal digit.  So \<open>log-run2-x.txt\<close> goes to instance 2 and
  \<open>notes.txt\<close> to instance 1.
\<close>

theorem instance_num_digits_of_piece:
  "instance_num f =
     (case after_first ''log-run'' f of
        None \<Rightarrow> 1
      | Some rest \<Rightarrow>
          (let ds = filter py_isdigit (takeWhile (\<lambda>c. c \<noteq> CHR ''-'') rest)
           in if ds \<noteq> [] \<and> list_all ascii_digit ds then dec_value ds else 1))"
proof (cases "after_first ''log-run'' f")
  case None
  then show ?thesis using py_in_after_first [of "''log-run''" f]
    by (simp add: instance_num_def)
next
  case (Some rest)
  then show ?thesis
    using parse_instance_after_first [OF Some] py_in_after_first [of "''log-run''" f]
    by (simp add: instance_num_def py_int_def Let_def)
qed

theorem instance_num_digits_of_piece_witness:
  "instance_num ''log-run3_v2-a.txt'' = 32"
proof -
  have a: "after_first ''log-run'' ''log-run3_v2-a.txt'' = Some ''3_v2-a.txt''"
    by code_simp
  have b: "(let ds = filter py_isdigit (takeWhile (\<lambda>c. c \<noteq> CHR ''-'') ''3_v2-a.txt'')
            in if ds \<noteq> [] \<and> list_all ascii_digit ds then dec_value ds else 1) = 32"
    by code_simp
  show ?thesis
    using instance_num_digits_of_piece [of "''log-run3_v2-a.txt''"] a b by simp
qed

text \<open>
  The claim as worded fails where something other than a digit stands between
  \<open>log-run\<close> and the number: the code still collects the digits of the piece.
\<close>

theorem instance_num_counterexample:
  "instance_num ''log-runx5-a.txt'' = 5 \<and> spec_instance_num ''log-runx5-a.txt'' = 1"
  by code_simp

lemma instance_num_examples:
  "instance_num ''log-run2-x.txt'' = 2" "instance_num ''notes.txt'' = 1"
  by code_simp+

text \<open>
  C10.  For a SUT whose raw name has no digit character the numeric match key is empty,
  every candidate ends with it, and the folder matched is the first entry, in enumeration
  order, whose lower-cased name starts with \<open>wp-\<close>, whatever digits that name ends with.
\<close>

theorem wp_match_without_digits:
  assumes "filter py_isdigit sut = []"
  shows "sut_number sut = [] \<and> (\<forall>c. wp_match sut c = startswith (py_lower c) ''wp-'')
     \<and> find_wp_folder candidates sut = List.find (\<lambda>c. startswith (py_lower c) ''wp-'') candidates"
proof -
  have m: "wp_match sut = (\<lambda>c. startswith (py_lower c) ''wp-'')"
    using assms by (auto simp: fun_eq_iff sut_number_def wp_match_def endswith_def py_lower_def)
  show ?thesis using assms m by (simp add: sut_number_def find_wp_folder_def)
qed

theorem wp_match_without_digits_witness:
  "filter py_isdigit ''vm'' = [] \<and> find_wp_folder [''notes'', ''WP-vm7'', ''wp-2''] ''vm'' = Some ''WP-vm7''"
proof -
  have h: "filter py_isdigit ''vm'' = []" by code_simp
  have f: "List.find (\<lambda>c. startswith (py_lower c) ''wp-'') [''notes'', ''WP-vm7'', ''wp-2'']
           = Some ''WP-vm7''" by code_simp
  show ?thesis
    using wp_match_without_digits [OF h, of "[''notes'', ''WP-vm7'', ''wp-2'']"] h f by simp
qed

section \<open>The footprint of every part of the program\<close>



lemma map_of_snoc_fresh: "map_of es x = None \<Longrightarrow> map_of (es @ [(x, v)]) = (map_of es)(x \<mapsto> v)"
  by (auto simp: fun_eq_iff map_add_def split: option.splits)





lemma writes_in_refl: "writes_in P s s"
  by (auto simp: writes_in_def intro: exI [of _ "[]"])


lemma writes_in_mono: "writes_in P s s' \<Longrightarrow> (\<And>e. P e \<Longrightarrow> Q e) \<Longrightarrow> writes_in Q s s'"
  unfolding writes_in_def by (auto simp: list_all_iff)

lemma do_ev_writes_in: "do_ev E e s = Inr s' \<Longrightarrow> P e \<Longrightarrow> writes_in P s s'"
  unfolding writes_in_def do_ev_def
  by (rule exI [of _ "[e]"]) (auto split: if_splits sum.splits)





lemma wr_up: "wr E (D @ r) e \<Longrightarrow> wr E D e"
  by (auto simp: wr_def dest: append_prefixD)




lemma rmtree_wr: "rmtree E p s = Inr s' \<Longrightarrow> writes_in (\<lambda>e. e = Rmtree p) s s'"
  unfolding rmtree_def
  by (cases "refuse E (Rmtree p)")
     (auto simp: writes_in_refl intro!: do_ev_writes_in)
































lemma cleanup_wr:
  "cleanup E a s = Inr s' \<Longrightarrow> (\<And>x T. a = Some x \<Longrightarrow> art_temp x = Some T \<Longrightarrow> T = D) \<Longrightarrow>
   writes_in (\<lambda>e. e = Rmtree D) s s'"
  unfolding cleanup_def
  by (auto split: option.splits if_splits simp: writes_in_refl intro: rmtree_wr)

section \<open>Directories stay\<close>

lemma dir_at_Nil [simp]: "dir_at (Dir es) [] = True" "dir_at (File c) q = False"
  by (cases q; simp add: dir_at_def)+










section \<open>The source tree is left as it was\<close>

lemma apart_sym: "apart p q = apart q p"
  by (auto simp: apart_def)






lemma upd_entry_snoc_fresh:
  "map_of es x = None \<Longrightarrow> upd_entry x v (es @ [(x, w)]) = es @ [(x, v)]"
  by (induction es) (auto split: if_splits)

















lemma lookup_append:
  "lookup t (p @ r) = (case lookup t p of None \<Rightarrow> None | Some n \<Rightarrow> lookup n r)"
  by (induction t p rule: lookup.induct) (auto split: option.splits)














text \<open>
  In \<open>restructurev3.py\<close> the throwaway directory is named after the run counter; a
  folder of the source with that name is unpacked into, copied from and removed.
\<close>

lemma v3_removes_source_folder:
  "source_after V3 demo_env ''U'' ''T'' [''src''] [''out''] (fresh_state clash_tree)
   = Inr (Some (Dir [(''WorkloadProfiler'', Dir [(''capture.tar.gz'', File ''TAR'')])]))"
  by code_simp

lemma latest_keeps_source_folder:
  "source_after Latest demo_env ''U'' ''T'' [''src''] [''out''] (fresh_state clash_tree)
   = Inr (lookup clash_tree [''src''])"
  by code_simp

text \<open>
  An archive with a member named \<open>../leak.json\<close>: the member is written beside the
  throwaway directory, into the source's \<open>WorkloadProfiler\<close> folder, and is still there
  when the throwaway directory has been removed.
\<close>

lemma climbing_member_stays_in_source:
  "source_after Latest climbing_env ''U'' ''T'' [''src''] [''out''] (fresh_state single_tree)
   = Inr (Some (Dir [(''Logs'',
                      Dir [(''c'', Dir []),
                           (''a'', Dir [(''l.txt'', File ''L''), (''s'', Dir [(''deep'', File ''D'')])]),
                           (''b'', Dir [])]),
                     (''WorkloadProfiler'',
                      Dir [(''capture.tar.gz'', File ''TAR''), (''leak.json'', File ''L'')]),
                     (''EPYC_manual_result.json'', File ''E''),
                     (''x.TXT'', File ''X'')]))"
  by code_simp

section \<open>What each part writes\<close>


lemma basename_snoc [simp]: "basename (p @ [x]) = x"
  by (simp add: basename_def)





text \<open>The reads below the source agree in two states.\<close>

lemma same_isfile: "lookup (tree s) S = lookup (tree s0) S \<Longrightarrow> isfile s (S @ r) = isfile s0 (S @ r)"
  by (simp add: isfile_def lookup_append)

lemma same_isdir: "lookup (tree s) S = lookup (tree s0) S \<Longrightarrow> isdir s (S @ r) = isdir s0 (S @ r)"
  by (simp add: isdir_def lookup_append)

lemma same_exists: "lookup (tree s) S = lookup (tree s0) S \<Longrightarrow> exists s (S @ r) = exists s0 (S @ r)"
  by (simp add: exists_def lookup_append)

lemma same_listdir: "lookup (tree s) S = lookup (tree s0) S \<Longrightarrow> listdir s (S @ r) = listdir s0 (S @ r)"
  by (simp add: listdir_def lookup_append)

lemma same_os_walk: "lookup (tree s) S = lookup (tree s0) S \<Longrightarrow> os_walk s (S @ r) = os_walk s0 (S @ r)"
  by (simp add: os_walk_def lookup_append)

lemma same_isfile0: "lookup (tree s) S = lookup (tree s0) S \<Longrightarrow> isfile s S = isfile s0 S"
  by (simp add: isfile_def)

lemma same_listdir0: "lookup (tree s) S = lookup (tree s0) S \<Longrightarrow> listdir s S = listdir s0 S"
  by (simp add: listdir_def)

lemmas same_reads = same_isfile same_isdir same_exists same_listdir same_os_walk

















end
